theory Spec2Isabelle
  imports Main "HOL-Library.AList" "HOL-Library.Multiset"
begin

section \<open>The ResourceRegistry cell (CEL-RESOURCEREG-v0.1.0)\<close>

text \<open>
  A shallow embedding of the class \<^verbatim>\<open>ResourceRegistry\<close> (resource-reg-cell.ts): the
  command pipeline \<^verbatim>\<open>execute\<close>, the offline queue (\<^verbatim>\<open>executeOffline\<close>, \<^verbatim>\<open>sync\<close>),
  the listener registry and \<^verbatim>\<open>dispose\<close>.

  Conventions of the model.
  \<^item> The instance fields and the part of the JavaScript run time that the methods touch are
    one record, \<open>ResourceRegistry\<close>; every method takes it and returns it updated.
  \<^item> Queue entries are objects: \<^verbatim>\<open>sync\<close> increments \<^verbatim>\<open>retryCount\<close> through its sorted
    copy of the array and the array of the instance sees it. The model keeps the entries
    in a store (\<open>heap\<close>, from addresses to entries); the queue is a list of addresses.
  \<^item> \<^verbatim>\<open>Date.now()\<close> and \<^verbatim>\<open>Math.random()\<close> are inputs: the environment \<open>env\<close> gives
    the value of the n-th reading, the record counts the readings.
  \<^item> What the instance does to its surroundings is recorded, in order, in \<open>trace\<close>: each
    call of a registered listener, each call of \<^verbatim>\<open>emitAudit\<close> and
    \<^verbatim>\<open>persistOfflineQueue\<close> (both have an empty body in the source) and each awaited
    back-off delay. Listeners are opaque callbacks, identified by a number; they are taken
    to return normally and not to call back into the instance.
  \<^item> Counters (\<^verbatim>\<open>sequenceCounter\<close>, \<^verbatim>\<open>retryCount\<close>, \<^verbatim>\<open>synced\<close>, \<^verbatim>\<open>failed\<close>) start at
    0 and go up by 1; they are natural numbers here (a JavaScript number is exact on them
    up to \<open>2^53\<close>). Milliseconds and the other numbers of the configuration are integers.
  \<^item> A string-valued field of a command may be absent: \<open>None\<close> is \<^verbatim>\<open>undefined\<close>.
  \<^item> The methods are \<^verbatim>\<open>async\<close>; the model runs each call to its end before the next one
    starts. \<^verbatim>\<open>execute\<close> calls itself again through \<^verbatim>\<open>retryWithBackoff\<close> and need not
    return: the model takes a bound on the number of nested calls and answers \<open>None\<close>,
    with the state reached, when the bound is used up.
\<close>

subsection \<open>Types (types.ts)\<close>

text \<open>
  Modelled from the spec: the file \<^verbatim>\<open>types.ts\<close> is not among the sources. The fields are
  those of section 3 of the specification and those the class reads and writes.
\<close>

datatype CellState =
  IDLE | VALIDATING | PROCESSING | COMPLETING | OFFLINE | SYNCING | ERROR | DEAD_LETTER

datatype ResultStatus = Success | Partial | Failure

datatype jsval = JUndefined | JStr string | JNum int | JBool bool

type_synonym jsobject = "(string \<times> jsval) list"

record ResourceRegistryCommand =
  cmd_id :: "string option"
  cmd_type :: "string option"
  cmd_payload :: string
  idempotencyKey :: "string option"
  cmd_timestamp :: int
  cmd_locale :: string

record ExecutionContext =
  tenantId :: string
  userId :: string
  ctx_locale :: string
  timezone :: string
  isOffline :: bool
  networkQuality :: string
  correlationId :: string

record CellMetric =
  metric_name :: string
  metric_value :: int
  metric_unit :: string
  metric_timestamp :: int
  metric_tags :: "(string \<times> string) list"

record ResourceRegistryResult =
  res_id :: string
  commandId :: "string option"
  status :: ResultStatus
  res_data :: jsobject
  res_metrics :: "CellMetric list"
  res_timestamp :: int

record OfflineQueueEntry =
  entry_id :: string
  entry_command :: ResourceRegistryCommand
  entry_context :: ExecutionContext
  sequenceNumber :: nat
  vectorClock :: "(string \<times> nat) list"
  createdAt :: int
  retryCount :: nat

record SyncResult =
  synced :: nat
  failed :: nat
  conflicts :: "jsval list"
  duration :: int

record FieldError =
  err_field :: string
  err_message :: string
  err_code :: string

record ValidationResult =
  valid :: bool
  errors :: "FieldError list"

record NetworkConfig =
  defaultTimeoutMs :: int
  net_maxRetries :: int
  backoffMultiplier :: int
  initialBackoffMs :: int
  compressionThreshold :: int

record ResourceRegistryConfig =
  maxRetries :: int
  timeoutMs :: int
  offlineStorageKey :: string
  enableTelemetry :: bool
  cfg_locale :: string
  networkConfig :: NetworkConfig

record PartialConfig =
  p_maxRetries :: "int option"
  p_timeoutMs :: "int option"
  p_offlineStorageKey :: "string option"
  p_enableTelemetry :: "bool option"
  p_locale :: "string option"
  p_networkConfig :: "NetworkConfig option"

subsection \<open>Errors, surroundings and the instance\<close>

datatype error =
  ResourceRegistryValidationError "FieldError list"
  | TimeoutError int

type_synonym handler = nat

type_synonym addr = nat

datatype event =
  StateListenerCalled handler CellState
  | ErrorListenerCalled handler error
  | AuditEmitted string string jsobject
  | QueuePersisted
  | Slept int

record env =
  now :: "nat \<Rightarrow> int"
  random36 :: "nat \<Rightarrow> string"

record ResourceRegistry =
  state :: CellState
  offlineQueue :: "addr list"
  sequenceCounter :: nat
  metrics :: "CellMetric list"
  stateListeners :: "handler list"
  errorListeners :: "handler list"
  config :: ResourceRegistryConfig
  heap :: "addr \<Rightarrow> OfflineQueueEntry"
  nextAddr :: addr
  clockReads :: nat
  randomReads :: nat
  trace :: "event list"

type_synonym 'a outcome = "(error + 'a) option"

subsection \<open>JavaScript helpers\<close>

text \<open>\<^verbatim>\<open>!x\<close> on a string that may be absent: \<^verbatim>\<open>undefined\<close> and the empty string are falsy.\<close>

fun truthy :: "string option \<Rightarrow> bool" where
  "truthy None = False"
| "truthy (Some s) = (s \<noteq> [])"

fun js_of_opt :: "string option \<Rightarrow> jsval" where
  "js_of_opt None = JUndefined"
| "js_of_opt (Some s) = JStr s"

fun as_string :: "jsval option \<Rightarrow> string option" where
  "as_string (Some (JStr s)) = Some s"
| "as_string _ = None"

fun state_name :: "CellState \<Rightarrow> string" where
  "state_name IDLE = ''IDLE''"
| "state_name VALIDATING = ''VALIDATING''"
| "state_name PROCESSING = ''PROCESSING''"
| "state_name COMPLETING = ''COMPLETING''"
| "state_name OFFLINE = ''OFFLINE''"
| "state_name SYNCING = ''SYNCING''"
| "state_name ERROR = ''ERROR''"
| "state_name DEAD_LETTER = ''DEAD_LETTER''"

fun decimal_nat :: "nat \<Rightarrow> string" where
  "decimal_nat n =
     (if n < 10 then [''0123456789'' ! n]
      else decimal_nat (n div 10) @ [''0123456789'' ! (n mod 10)])"

declare decimal_nat.simps [simp del]

definition decimal :: "int \<Rightarrow> string" where
  "decimal i = (if i < 0 then CHR ''-'' # decimal_nat (nat (- i)) else decimal_nat (nat i))"

fun join :: "string \<Rightarrow> string list \<Rightarrow> string" where
  "join sep [] = []"
| "join sep [x] = x"
| "join sep (x # y # ys) = x @ sep @ join sep (y # ys)"

text \<open>
  \<^verbatim>\<open>String(error)\<close> for the error class of the file: the name set by its constructor, a
  colon and the message \<^verbatim>\<open>Validation failed: ...\<close>; for the \<^verbatim>\<open>Error\<close> of
  \<^verbatim>\<open>withTimeout\<close>, \<^verbatim>\<open>Error: Timeout after ...ms\<close>.
\<close>

fun error_message :: "error \<Rightarrow> string" where
  "error_message (ResourceRegistryValidationError es) =
     ''Validation failed: '' @ join '', '' (map err_message es)"
| "error_message (TimeoutError ms) = ''Timeout after '' @ decimal ms @ ''ms''"

fun error_string :: "error \<Rightarrow> string" where
  "error_string (ResourceRegistryValidationError es) =
     ''ResourceRegistryValidationError: '' @ error_message (ResourceRegistryValidationError es)"
| "error_string (TimeoutError ms) = ''Error: '' @ error_message (TimeoutError ms)"

subsection \<open>Construction\<close>

definition DEFAULT_CONFIG :: ResourceRegistryConfig where
  "DEFAULT_CONFIG =
     \<lparr> maxRetries = 3, timeoutMs = 30000,
       offlineStorageKey = ''cel_resourcereg_offline_queue'',
       enableTelemetry = True, cfg_locale = ''en-NG'',
       networkConfig = \<lparr> defaultTimeoutMs = 30000, net_maxRetries = 3, backoffMultiplier = 2,
                         initialBackoffMs = 1000, compressionThreshold = 1024 \<rparr> \<rparr>"

definition no_config :: PartialConfig where
  "no_config =
     \<lparr> p_maxRetries = None, p_timeoutMs = None, p_offlineStorageKey = None,
       p_enableTelemetry = None, p_locale = None, p_networkConfig = None \<rparr>"

text \<open>\<^verbatim>\<open>{ ...DEFAULT_CONFIG, ...config }\<close>: a key of the argument replaces the default.\<close>

definition merge_config :: "PartialConfig \<Rightarrow> ResourceRegistryConfig" where
  "merge_config p =
     \<lparr> maxRetries = (case p_maxRetries p of None \<Rightarrow> maxRetries DEFAULT_CONFIG | Some v \<Rightarrow> v),
       timeoutMs = (case p_timeoutMs p of None \<Rightarrow> timeoutMs DEFAULT_CONFIG | Some v \<Rightarrow> v),
       offlineStorageKey =
         (case p_offlineStorageKey p of None \<Rightarrow> offlineStorageKey DEFAULT_CONFIG | Some v \<Rightarrow> v),
       enableTelemetry =
         (case p_enableTelemetry p of None \<Rightarrow> enableTelemetry DEFAULT_CONFIG | Some v \<Rightarrow> v),
       cfg_locale = (case p_locale p of None \<Rightarrow> cfg_locale DEFAULT_CONFIG | Some v \<Rightarrow> v),
       networkConfig =
         (case p_networkConfig p of None \<Rightarrow> networkConfig DEFAULT_CONFIG | Some v \<Rightarrow> v) \<rparr>"

definition blank_entry :: OfflineQueueEntry where
  "blank_entry =
     \<lparr> entry_id = [],
       entry_command = \<lparr> cmd_id = None, cmd_type = None, cmd_payload = [],
                         idempotencyKey = None, cmd_timestamp = 0, cmd_locale = [] \<rparr>,
       entry_context = \<lparr> tenantId = [], userId = [], ctx_locale = [], timezone = [],
                         isOffline = False, networkQuality = [], correlationId = [] \<rparr>,
       sequenceNumber = 0, vectorClock = [], createdAt = 0, retryCount = 0 \<rparr>"

text \<open>
  The constructor. Nothing is allocated yet (\<open>nextAddr = 0\<close>); what the store holds at
  an address that was never allocated is immaterial.
\<close>

definition new_ResourceRegistry :: "PartialConfig \<Rightarrow> ResourceRegistry" where
  "new_ResourceRegistry p =
     \<lparr> state = IDLE, offlineQueue = [], sequenceCounter = 0, metrics = [],
       stateListeners = [], errorListeners = [], config = merge_config p,
       heap = (\<lambda>_. blank_entry), nextAddr = 0, clockReads = 0, randomReads = 0,
       trace = [] \<rparr>"

subsection \<open>Private methods\<close>

definition dateNow :: "env \<Rightarrow> ResourceRegistry \<Rightarrow> int \<times> ResourceRegistry" where
  "dateNow E w = (now E (clockReads w), w\<lparr>clockReads := clockReads w + 1\<rparr>)"

definition recordMetric ::
  "env \<Rightarrow> string \<Rightarrow> int \<Rightarrow> string \<Rightarrow> (string \<times> string) list \<Rightarrow> ResourceRegistry
   \<Rightarrow> ResourceRegistry" where
  "recordMetric E name v unit tags w =
     (let (t, w1) = dateNow E w
      in w1\<lparr>metrics := metrics w1 @
               [\<lparr> metric_name = name, metric_value = v, metric_unit = unit,
                  metric_timestamp = t, metric_tags = tags \<rparr>]\<rparr>)"

definition transitionTo :: "env \<Rightarrow> CellState \<Rightarrow> ResourceRegistry \<Rightarrow> ResourceRegistry" where
  "transitionTo E newState w =
     (let oldState = state w;
          w1 = w\<lparr>state := newState\<rparr>;
          w2 = w1\<lparr>trace := trace w1 @
                   map (\<lambda>h. StateListenerCalled h newState) (stateListeners w1)\<rparr>
      in recordMetric E ''state_transition'' 1 ''count''
           [(''from'', state_name oldState), (''to'', state_name newState)] w2)"

definition validate :: "ResourceRegistryCommand \<Rightarrow> ValidationResult" where
  "validate command =
     (let errors0 = [];
          errors1 = (if \<not> truthy (cmd_id command)
                     then errors0 @ [\<lparr> err_field = ''id'', err_message = ''Required'',
                                       err_code = ''REQUIRED'' \<rparr>]
                     else errors0);
          errors2 = (if \<not> truthy (cmd_type command)
                     then errors1 @ [\<lparr> err_field = ''type'', err_message = ''Required'',
                                       err_code = ''REQUIRED'' \<rparr>]
                     else errors1);
          errors3 = (if \<not> truthy (idempotencyKey command)
                     then errors2 @ [\<lparr> err_field = ''idempotencyKey'',
                                       err_message = ''Required for offline support'',
                                       err_code = ''REQUIRED'' \<rparr>]
                     else errors2)
      in \<lparr> valid = (length errors3 = 0), errors = errors3 \<rparr>)"

definition process ::
  "env \<Rightarrow> ResourceRegistryCommand \<Rightarrow> ExecutionContext \<Rightarrow> ResourceRegistry
   \<Rightarrow> jsobject \<times> ResourceRegistry" where
  "process E command context w =
     (let (t, w1) = dateNow E w
      in ([(''commandId'', js_of_opt (cmd_id command)), (''processedAt'', JNum t),
           (''tenantId'', JStr (tenantId context)), (''locale'', JStr (ctx_locale context))],
          w1))"

text \<open>\<^verbatim>\<open>{ ...data, routed: true, routedAt: Date.now() }\<close>: a key that is there keeps its place.\<close>

definition route ::
  "env \<Rightarrow> jsobject \<Rightarrow> ExecutionContext \<Rightarrow> ResourceRegistry \<Rightarrow> jsobject \<times> ResourceRegistry" where
  "route E data context w =
     (let (t, w1) = dateNow E w
      in (AList.update ''routedAt'' (JNum t) (AList.update ''routed'' (JBool True) data), w1))"

definition generateId :: "env \<Rightarrow> ResourceRegistry \<Rightarrow> string \<times> ResourceRegistry" where
  "generateId E w =
     (let (t, w1) = dateNow E w;
          r = random36 E (randomReads w1);
          w2 = w1\<lparr>randomReads := randomReads w1 + 1\<rparr>
      in (offlineStorageKey (config w2) @ ''_'' @ decimal t @ ''_'' @ r, w2))"

definition getState :: "ResourceRegistry \<Rightarrow> CellState" where
  "getState w = state w"

definition getMetrics :: "ResourceRegistry \<Rightarrow> CellMetric list" where
  "getMetrics w = metrics w"

definition deliver ::
  "env \<Rightarrow> jsobject \<Rightarrow> ExecutionContext \<Rightarrow> ResourceRegistry
   \<Rightarrow> ResourceRegistryResult \<times> ResourceRegistry" where
  "deliver E data context w =
     (let (i, w1) = generateId E w;
          ms = getMetrics w1;
          (t, w2) = dateNow E w1
      in (\<lparr> res_id = i, commandId = as_string (map_of data ''commandId''), status = Success,
            res_data = data, res_metrics = ms, res_timestamp = t \<rparr>, w2))"

definition canRetry :: "ResourceRegistryCommand \<Rightarrow> bool" where
  "canRetry command = True"

definition persistOfflineQueue :: "ResourceRegistry \<Rightarrow> ResourceRegistry" where
  "persistOfflineQueue w = w\<lparr>trace := trace w @ [QueuePersisted]\<rparr>"

definition emitAudit ::
  "string \<Rightarrow> string \<Rightarrow> jsobject \<Rightarrow> ResourceRegistry \<Rightarrow> ResourceRegistry" where
  "emitAudit action actor details w = w\<lparr>trace := trace w @ [AuditEmitted action actor details]\<rparr>"

text \<open>
  \<^verbatim>\<open>withTimeout\<close> races the promise of a stage against a timer. \<^verbatim>\<open>validate\<close> and
  \<^verbatim>\<open>process\<close> have no \<^verbatim>\<open>await\<close> in their bodies, so their promises are settled when
  the race starts and win it whatever \<^verbatim>\<open>ms\<close> is: the result of the race is the result
  of the stage.
\<close>

definition withTimeout :: "error + 'a \<Rightarrow> int \<Rightarrow> error + 'a" where
  "withTimeout promise ms = promise"

definition backoffDelay :: "ResourceRegistryConfig \<Rightarrow> int" where
  "backoffDelay c =
     initialBackoffMs (networkConfig c) * backoffMultiplier (networkConfig c) ^ (0::nat)"

subsection \<open>Public methods\<close>

definition executeOffline ::
  "env \<Rightarrow> ResourceRegistry \<Rightarrow> ResourceRegistryCommand \<Rightarrow> ExecutionContext
   \<Rightarrow> ResourceRegistry \<times> ResourceRegistryResult outcome" where
  "executeOffline E w command context =
     (let w1 = transitionTo E OFFLINE w;
          (i, w2) = generateId E w1;
          w3 = w2\<lparr>sequenceCounter := sequenceCounter w2 + 1\<rparr>;
          (t, w4) = dateNow E w3;
          entry = \<lparr> entry_id = i, entry_command = command, entry_context = context,
                    sequenceNumber = sequenceCounter w3,
                    vectorClock = [(userId context, sequenceCounter w3)],
                    createdAt = t, retryCount = 0 \<rparr>;
          a = nextAddr w4;
          w5 = w4\<lparr>heap := (heap w4)(a := entry), nextAddr := a + 1\<rparr>;
          w6 = w5\<lparr>offlineQueue := offlineQueue w5 @ [a]\<rparr>;
          w7 = persistOfflineQueue w6;
          w8 = emitAudit ''offline_queue'' (userId context)
                 [(''entryId'', JStr (entry_id entry))] w7;
          w9 = recordMetric E ''offline_queue_size'' (int (length (offlineQueue w8))) ''count'' [] w8;
          (j, w10) = generateId E w9;
          (u, w11) = dateNow E w10
      in (w11,
          Some (Inr \<lparr> res_id = j, commandId = cmd_id command, status = Partial,
                      res_data = [(''offlineEntryId'', JStr (entry_id entry)),
                                  (''queuePosition'', JNum (int (length (offlineQueue w11))))],
                      res_metrics = [], res_timestamp = u \<rparr>)))"

text \<open>The body of the \<^verbatim>\<open>try\<close> block of \<^verbatim>\<open>execute\<close>; \<open>Inl\<close> is what it throws.\<close>

definition execute_try ::
  "env \<Rightarrow> int \<Rightarrow> ResourceRegistry \<Rightarrow> ResourceRegistryCommand \<Rightarrow> ExecutionContext
   \<Rightarrow> ResourceRegistry \<times> (error + ResourceRegistryResult)" where
  "execute_try E startTime w command context =
     (case withTimeout (Inr (validate command)) (timeoutMs (config w)) of
        Inl e \<Rightarrow> (w, Inl e)
      | Inr validated \<Rightarrow>
          if \<not> valid validated
          then (w, Inl (ResourceRegistryValidationError (errors validated)))
          else
            (let w1 = transitionTo E PROCESSING w;
                 (p, w2) = process E command context w1
             in case withTimeout (Inr p) (timeoutMs (config w2)) of
                  Inl e \<Rightarrow> (w2, Inl e)
                | Inr processed \<Rightarrow>
                    (let (routed, w3) = route E processed context w2;
                         w4 = transitionTo E COMPLETING w3;
                         (result, w5) = deliver E routed context w4;
                         w6 = emitAudit ''execute'' (userId context)
                                [(''commandId'', js_of_opt (cmd_id command)),
                                 (''status'', JStr ''success'')] w5;
                         (t, w7) = dateNow E w6;
                         w8 = recordMetric E ''execution_duration_ms'' (t - startTime) ''ms'' [] w7;
                         w9 = recordMetric E ''execution_success'' 1 ''count'' [] w8;
                         w10 = transitionTo E IDLE w9
                     in (w10, Inr result))))"

text \<open>The start of the \<^verbatim>\<open>catch\<close> block of \<^verbatim>\<open>execute\<close>, up to the retry decision.\<close>

definition execute_catch ::
  "env \<Rightarrow> ResourceRegistry \<Rightarrow> ResourceRegistryCommand \<Rightarrow> ExecutionContext \<Rightarrow> error
   \<Rightarrow> ResourceRegistry" where
  "execute_catch E w command context err =
     (let w1 = transitionTo E ERROR w;
          w2 = recordMetric E ''execution_error'' 1 ''count'' [] w1
      in emitAudit ''error'' (userId context)
           [(''commandId'', js_of_opt (cmd_id command)), (''error'', JStr (error_string err))] w2)"

text \<open>
  \<open>execute n\<close> and \<open>retryWithBackoff n\<close> allow \<open>n\<close> nested calls of \<^verbatim>\<open>execute\<close>; the
  answer \<open>None\<close> says that the call had not returned when they were used up.
\<close>

fun execute ::
  "nat \<Rightarrow> env \<Rightarrow> ResourceRegistry \<Rightarrow> ResourceRegistryCommand \<Rightarrow> ExecutionContext
   \<Rightarrow> ResourceRegistry \<times> ResourceRegistryResult outcome"
and retryWithBackoff ::
  "nat \<Rightarrow> env \<Rightarrow> ResourceRegistry \<Rightarrow> ResourceRegistryCommand \<Rightarrow> ExecutionContext
   \<Rightarrow> ResourceRegistry \<times> ResourceRegistryResult outcome" where
  "execute 0 E w command context = (w, None)"
| "execute (Suc n) E w command context =
     (if isOffline context \<or> networkQuality context = ''offline''
      then executeOffline E w command context
      else
        (let (startTime, w1) = dateNow E w;
             w2 = transitionTo E VALIDATING w1
         in case execute_try E startTime w2 command context of
              (w3, Inr result) \<Rightarrow> (w3, Some (Inr result))
            | (w3, Inl err) \<Rightarrow>
                (let w4 = execute_catch E w3 command context err
                 in if truthy (idempotencyKey command) \<and> canRetry command
                    then retryWithBackoff n E w4 command context
                    else (w4, Some (Inl err)))))"
| "retryWithBackoff n E w command context =
     (let delay = backoffDelay (config w);
          w1 = w\<lparr>trace := trace w @ [Slept delay]\<rparr>
      in execute n E w1 command context)"

text \<open>
  The loop of \<^verbatim>\<open>sync\<close> over the sorted copy of the queue. \<open>a\<close> is the entry object of
  the iteration: its command and context are read before the replay, its \<^verbatim>\<open>id\<close> and
  \<^verbatim>\<open>retryCount\<close> after it.
\<close>

fun sync_loop ::
  "nat \<Rightarrow> env \<Rightarrow> addr list \<Rightarrow> ResourceRegistry \<Rightarrow> nat \<Rightarrow> nat
   \<Rightarrow> ResourceRegistry \<times> (nat \<times> nat) option" where
  "sync_loop n E [] w ns nf = (w, Some (ns, nf))"
| "sync_loop n E (a # rest) w ns nf =
     (let onlineContext = (entry_context (heap w a))\<lparr>isOffline := False\<rparr>
      in case execute n E w (entry_command (heap w a)) onlineContext of
           (w1, None) \<Rightarrow> (w1, None)
         | (w1, Some (Inr result)) \<Rightarrow>
             sync_loop n E rest
               (w1\<lparr>offlineQueue :=
                     filter (\<lambda>e. entry_id (heap w1 e) \<noteq> entry_id (heap w1 a)) (offlineQueue w1)\<rparr>)
               (ns + 1) nf
         | (w1, Some (Inl err)) \<Rightarrow>
             sync_loop n E rest
               (w1\<lparr>heap := (heap w1)(a := (heap w1 a)\<lparr>retryCount := retryCount (heap w1 a) + 1\<rparr>)\<rparr>)
               ns (nf + 1))"

text \<open>
  \<^verbatim>\<open>[...this.offlineQueue].sort((a, b) => a.sequenceNumber - b.sequenceNumber)\<close>: the
  sort of an array is stable, as \<open>sort_key\<close> is.
\<close>

definition sorted_queue :: "ResourceRegistry \<Rightarrow> addr list" where
  "sorted_queue w = sort_key (\<lambda>a. sequenceNumber (heap w a)) (offlineQueue w)"

definition sync :: "nat \<Rightarrow> env \<Rightarrow> ResourceRegistry \<Rightarrow> ResourceRegistry \<times> SyncResult outcome" where
  "sync n E w =
     (let w1 = transitionTo E SYNCING w;
          (startTime, w2) = dateNow E w1
      in case sync_loop n E (sorted_queue w2) w2 0 0 of
           (w3, None) \<Rightarrow> (w3, None)
         | (w3, Some (ns, nf)) \<Rightarrow>
             (let w4 = persistOfflineQueue w3;
                  w5 = transitionTo E IDLE w4;
                  (t, w6) = dateNow E w5
              in (w6, Some (Inr \<lparr> synced = ns, failed = nf, conflicts = [],
                                 duration = t - startTime \<rparr>))))"

text \<open>
  \<^verbatim>\<open>onStateChange\<close> and \<^verbatim>\<open>onError\<close> register a handler and return a closure that
  removes it; the closures are \<open>unsubscribeState\<close> and \<open>unsubscribeError\<close>.
\<close>

definition onStateChange :: "handler \<Rightarrow> ResourceRegistry \<Rightarrow> ResourceRegistry" where
  "onStateChange h w = w\<lparr>stateListeners := stateListeners w @ [h]\<rparr>"

definition unsubscribeState :: "handler \<Rightarrow> ResourceRegistry \<Rightarrow> ResourceRegistry" where
  "unsubscribeState h w = w\<lparr>stateListeners := filter (\<lambda>g. g \<noteq> h) (stateListeners w)\<rparr>"

definition onError :: "handler \<Rightarrow> ResourceRegistry \<Rightarrow> ResourceRegistry" where
  "onError h w = w\<lparr>errorListeners := errorListeners w @ [h]\<rparr>"

definition unsubscribeError :: "handler \<Rightarrow> ResourceRegistry \<Rightarrow> ResourceRegistry" where
  "unsubscribeError h w = w\<lparr>errorListeners := filter (\<lambda>g. g \<noteq> h) (errorListeners w)\<rparr>"

definition dispose :: "env \<Rightarrow> ResourceRegistry \<Rightarrow> ResourceRegistry" where
  "dispose E w =
     (let w1 = persistOfflineQueue w;
          w2 = w1\<lparr>stateListeners := []\<rparr>;
          w3 = w2\<lparr>errorListeners := []\<rparr>
      in transitionTo E IDLE w3)"

subsection \<open>Sequences of calls\<close>

text \<open>
  A client of the instance makes the calls of a list one after the other. \<open>perform\<close>
  answers the state after a call and whether the call came to its end (it returned or
  threw); \<open>run\<close> stops at a call that did not.
\<close>

datatype call =
  Execute ResourceRegistryCommand ExecutionContext
  | ExecuteOffline ResourceRegistryCommand ExecutionContext
  | Sync
  | OnStateChange handler
  | UnsubscribeState handler
  | OnError handler
  | UnsubscribeError handler
  | Dispose

fun perform :: "nat \<Rightarrow> env \<Rightarrow> call \<Rightarrow> ResourceRegistry \<Rightarrow> ResourceRegistry \<times> bool" where
  "perform n E (Execute c x) w = (case execute n E w c x of (w1, r) \<Rightarrow> (w1, r \<noteq> None))"
| "perform n E (ExecuteOffline c x) w = (case executeOffline E w c x of (w1, r) \<Rightarrow> (w1, True))"
| "perform n E Sync w = (case sync n E w of (w1, r) \<Rightarrow> (w1, r \<noteq> None))"
| "perform n E (OnStateChange h) w = (onStateChange h w, True)"
| "perform n E (UnsubscribeState h) w = (unsubscribeState h w, True)"
| "perform n E (OnError h) w = (onError h w, True)"
| "perform n E (UnsubscribeError h) w = (unsubscribeError h w, True)"
| "perform n E Dispose w = (dispose E w, True)"

fun run :: "nat \<Rightarrow> env \<Rightarrow> call list \<Rightarrow> ResourceRegistry \<Rightarrow> ResourceRegistry" where
  "run n E [] w = w"
| "run n E (c # cs) w = (case perform n E c w of (w1, ended) \<Rightarrow> if ended then run n E cs w1 else w1)"

subsection \<open>Notions the properties are stated with\<close>

text \<open>A context that \<^verbatim>\<open>execute\<close> does not send to the offline queue.\<close>

definition online :: "ExecutionContext \<Rightarrow> bool" where
  "online x = (\<not> isOffline x \<and> networkQuality x \<noteq> ''offline'')"

text \<open>The required fields that a command lacks, in the order id, type, idempotencyKey.\<close>

definition missing_fields :: "ResourceRegistryCommand \<Rightarrow> string list" where
  "missing_fields c =
     (if truthy (cmd_id c) then [] else [''id'']) @
     (if truthy (cmd_type c) then [] else [''type'']) @
     (if truthy (idempotencyKey c) then [] else [''idempotencyKey''])"

text \<open>
  The history of the state machine: every transition records a metric
  \<^verbatim>\<open>state_transition\<close> tagged with the state left and the state entered; \<open>entered\<close>
  lists the states entered, oldest first.
\<close>

definition entered :: "ResourceRegistry \<Rightarrow> string list" where
  "entered w =
     concat (map (\<lambda>m. map snd (filter (\<lambda>t. fst t = ''to'') (metric_tags m)))
                 (filter (\<lambda>m. metric_name m = ''state_transition'') (metrics w)))"

text \<open>The awaited back-off delays of a trace, oldest first.\<close>

fun slept :: "event list \<Rightarrow> int list" where
  "slept [] = []"
| "slept (Slept d # evs) = d # slept evs"
| "slept (ev # evs) = slept evs"

text \<open>The calls of the listener \<open>h\<close> in a trace.\<close>

fun calls :: "handler \<Rightarrow> event \<Rightarrow> bool" where
  "calls h (StateListenerCalled g s) = (g = h)"
| "calls h (ErrorListenerCalled g e) = (g = h)"
| "calls h ev = False"

definition listener_calls :: "handler \<Rightarrow> event list \<Rightarrow> event list" where
  "listener_calls h evs = filter (calls h) evs"



text \<open>
  What \<^verbatim>\<open>execute\<close> does with a command in a context that is not offline: with a key
  and a field missing, it fails and calls itself again (\<open>hangs\<close>); without a key it
  throws (\<open>throws\<close>). \<open>failed_attempt\<close> is the state after an attempt whose validation
  failed, before the retry decision.
\<close>

definition hangs :: "ResourceRegistryCommand \<Rightarrow> ExecutionContext \<Rightarrow> bool" where
  "hangs c x = (online x \<and> truthy (idempotencyKey c) \<and> \<not> valid (validate c))"

definition throws :: "ResourceRegistryCommand \<Rightarrow> ExecutionContext \<Rightarrow> bool" where
  "throws c x = (online x \<and> \<not> truthy (idempotencyKey c))"

definition failed_attempt ::
  "env \<Rightarrow> ResourceRegistry \<Rightarrow> ResourceRegistryCommand \<Rightarrow> ExecutionContext \<Rightarrow> ResourceRegistry" where
  "failed_attempt E w c x =
     execute_catch E (transitionTo E VALIDATING (snd (dateNow E w))) c x
       (ResourceRegistryValidationError (errors (validate c)))"

text \<open>The replay of a queue entry by \<^verbatim>\<open>sync\<close>: its context, and how it ends.\<close>

definition replay_context :: "OfflineQueueEntry \<Rightarrow> ExecutionContext" where
  "replay_context e = (entry_context e)\<lparr>isOffline := False\<rparr>"

definition replay_fails :: "OfflineQueueEntry \<Rightarrow> bool" where
  "replay_fails e = throws (entry_command e) (replay_context e)"

definition replay_hangs :: "OfflineQueueEntry \<Rightarrow> bool" where
  "replay_hangs e = hangs (entry_command e) (replay_context e)"


text \<open>
  Relations between the state before and after a step. \<open>keeps h\<close>: the registrations and
  the configuration are the same, and a handler that is not registered is not called.
  \<open>grows\<close>: entries are only added, at fresh addresses and with new sequence numbers.
\<close>

definition keeps :: "handler \<Rightarrow> ResourceRegistry \<Rightarrow> ResourceRegistry \<Rightarrow> bool" where
  "keeps h w w' =
     (stateListeners w' = stateListeners w \<and> errorListeners w' = errorListeners w \<and>
      config w' = config w \<and>
      (h \<notin> set (stateListeners w) \<longrightarrow>
         listener_calls h (trace w') = listener_calls h (trace w)))"

definition grows :: "ResourceRegistry \<Rightarrow> ResourceRegistry \<Rightarrow> bool" where
  "grows w w' =
     (nextAddr w \<le> nextAddr w' \<and> sequenceCounter w \<le> sequenceCounter w' \<and>
      (\<forall>b<nextAddr w. heap w' b = heap w b) \<and>
      (\<forall>b. nextAddr w \<le> b \<and> b < nextAddr w' \<longrightarrow>
           sequenceCounter w < sequenceNumber (heap w' b) \<and>
           sequenceNumber (heap w' b) \<le> sequenceCounter w') \<and>
      (\<exists>extra. offlineQueue w' = offlineQueue w @ extra \<and>
           (\<forall>b\<in>set extra. nextAddr w \<le> b \<and> b < nextAddr w')))"

text \<open>
  Every entry that was ever enqueued lives in the store below \<open>nextAddr\<close>, in the queue
  or not; \<open>seq_inv\<close> says that none has a sequence number above the counter.
\<close>

definition seq_inv :: "ResourceRegistry \<Rightarrow> bool" where
  "seq_inv w = (\<forall>b<nextAddr w. sequenceNumber (heap w b) \<le> sequenceCounter w)"


definition ages :: "ResourceRegistry \<Rightarrow> ResourceRegistry \<Rightarrow> bool" where
  "ages w w' =
     (nextAddr w \<le> nextAddr w' \<and>
      (\<forall>b<nextAddr w. entry_id (heap w' b) = entry_id (heap w b) \<and>
           entry_command (heap w' b) = entry_command (heap w b) \<and>
           entry_context (heap w' b) = entry_context (heap w b) \<and>
           sequenceNumber (heap w' b) = sequenceNumber (heap w b)))"






subsection \<open>Sample inputs\<close>

definition env0 :: env where
  "env0 =
     \<lparr> now = (\<lambda>n. 1700000000000 + int n),
       random36 = (\<lambda>n. if n < 6
                         then [''k3j9x2m1q'', ''a81hs0p2l'', ''zq04mfu7e'',
                               ''0c9d2y5tb'', ''w6r1n8v3g'', ''p5x0a7k2d''] ! n
                         else ''m2b7q9c4x'') \<rparr>"

definition command_of :: "string option \<Rightarrow> string option \<Rightarrow> string option \<Rightarrow> ResourceRegistryCommand" where
  "command_of i t k =
     \<lparr> cmd_id = i, cmd_type = t, cmd_payload = [], idempotencyKey = k,
       cmd_timestamp = 0, cmd_locale = ''en-NG'' \<rparr>"

definition cmd_1 :: ResourceRegistryCommand where
  "cmd_1 = command_of (Some ''cmd-1'') (Some ''noop'') (Some ''k1'')"

definition context_of :: "bool \<Rightarrow> string \<Rightarrow> ExecutionContext" where
  "context_of off q =
     \<lparr> tenantId = ''tenant-001'', userId = ''user-001'', ctx_locale = ''en-NG'',
       timezone = ''Africa/Lagos'', isOffline = off, networkQuality = q,
       correlationId = ''corr-001'' \<rparr>"

definition cmd_no_id :: ResourceRegistryCommand where
  "cmd_no_id = command_of None (Some ''noop'') (Some ''k1'')"

definition cmd_no_key :: ResourceRegistryCommand where
  "cmd_no_key = command_of (Some ''cmd-1'') (Some ''noop'') None"

definition cmd_empty_id :: ResourceRegistryCommand where
  "cmd_empty_id = command_of (Some []) (Some ''noop'') (Some ''k1'')"

definition cmd_empty_key :: ResourceRegistryCommand where
  "cmd_empty_key = command_of (Some ''cmd-1'') (Some ''noop'') (Some [])"

definition fresh :: ResourceRegistry where
  "fresh = new_ResourceRegistry no_config"

text \<open>The instance after one command was queued offline.\<close>

definition queued_1 :: ResourceRegistry where
  "queued_1 = fst (execute (Suc 0) env0 fresh cmd_1 (context_of True ''medium''))"









section \<open>Properties\<close>

subsection \<open>Steps of \<^verbatim>\<open>execute\<close>\<close>

lemmas prim_defs = dateNow_def recordMetric_def transitionTo_def generateId_def
  persistOfflineQueue_def emitAudit_def

lemmas stage_defs = withTimeout_def process_def route_def deliver_def getMetrics_def

lemma validate_fields: "map err_field (errors (validate c)) = missing_fields c"
  by (simp add: validate_def missing_fields_def Let_def)

lemma validate_valid: "valid (validate c) = (missing_fields c = [])"
  by (simp add: validate_def missing_fields_def Let_def)

lemma valid_iff: "valid (validate c) = (truthy (cmd_id c) \<and> truthy (cmd_type c) \<and> truthy (idempotencyKey c))"
  by (simp add: validate_def Let_def)


lemma execute_offline_route:
  "\<not> online x \<Longrightarrow> execute (Suc n) E w c x = executeOffline E w c x"
  by (auto simp: online_def)

lemma execute_try_invalid:
  "\<not> valid (validate c) \<Longrightarrow>
   execute_try E t w c x = (w, Inl (ResourceRegistryValidationError (errors (validate c))))"
  by (simp add: execute_try_def withTimeout_def)

lemma execute_invalid:
  "online x \<Longrightarrow> \<not> valid (validate c) \<Longrightarrow>
   execute (Suc n) E w c x =
     (if truthy (idempotencyKey c)
      then execute n E ((failed_attempt E w c x)
             \<lparr>trace := trace (failed_attempt E w c x) @ [Slept (backoffDelay (config (failed_attempt E w c x)))]\<rparr>) c x
      else (failed_attempt E w c x, Some (Inl (ResourceRegistryValidationError (errors (validate c))))))"
  by (simp add: online_def execute_try_invalid failed_attempt_def canRetry_def Let_def dateNow_def)

lemma execute_valid:
  "online x \<Longrightarrow> valid (validate c) \<Longrightarrow>
   execute (Suc n) E w c x =
     (case execute_try E (now E (clockReads w)) (transitionTo E VALIDATING (snd (dateNow E w))) c x of
        (w3, r) \<Rightarrow> (w3, Some r))
   \<and> (\<exists>r. snd (execute_try E (now E (clockReads w)) (transitionTo E VALIDATING (snd (dateNow E w))) c x) = Inr r)"
  by (simp add: online_def Let_def dateNow_def execute_try_def stage_defs split_def)

declare execute.simps(2) [simp del] retryWithBackoff.simps [simp del]

lemma keeps_refl: "keeps h w w"
  by (simp add: keeps_def)

lemma keeps_trans: "keeps h w w1 \<Longrightarrow> keeps h w1 w2 \<Longrightarrow> keeps h w w2"
  by (simp add: keeps_def)

lemma calls_notify:
  "h \<notin> set ls \<Longrightarrow> filter (calls h) (map (\<lambda>g. StateListenerCalled g s) ls) = []"
  by (induction ls) auto

lemmas keeps_simps = keeps_def listener_calls_def calls_notify

lemma keeps_transitionTo: "keeps h w (transitionTo E s w)"
  by (simp add: keeps_simps prim_defs Let_def)

lemma keeps_executeOffline: "keeps h w (fst (executeOffline E w c x))"
  by (simp add: keeps_def executeOffline_def prim_defs Let_def split_def
      keeps_simps)

lemma keeps_failed_attempt: "keeps h w (failed_attempt E w c x)"
  by (simp add: keeps_def failed_attempt_def execute_catch_def prim_defs Let_def split_def
      keeps_simps)

lemma keeps_execute_try:
  "keeps h w (fst (execute_try E t (transitionTo E VALIDATING (snd (dateNow E w))) c x))"
  by (simp add: keeps_def execute_try_def stage_defs prim_defs Let_def split_def
      keeps_simps)

lemma keeps_slept: "keeps h w (w\<lparr>trace := trace w @ [Slept d]\<rparr>)"
  by (simp add: keeps_simps)

lemma keeps_execute: "keeps h w (fst (execute n E w c x))"
proof (induction n arbitrary: w)
  case 0
  show ?case by (simp add: keeps_refl)
next
  case (Suc n)
  show ?case
  proof (cases "online x")
    case False
    then show ?thesis by (simp add: execute_offline_route keeps_executeOffline)
  next
    case on: True
    show ?thesis
    proof (cases "valid (validate c)")
      case True
      with on show ?thesis
        using keeps_execute_try [of h w E "now E (clockReads w)" c x]
        by (simp add: execute_valid split_def)
    next
      case False
      let ?w4 = "failed_attempt E w c x"
      have "keeps h w (?w4\<lparr>trace := trace ?w4 @ [Slept (backoffDelay (config ?w4))]\<rparr>)"
        using keeps_failed_attempt keeps_slept keeps_trans by blast
      with on False Suc show ?thesis
        by (auto simp: execute_invalid keeps_failed_attempt intro: keeps_trans)
    qed
  qed
qed

lemma grows_refl: "grows w w"
  by (simp add: grows_def)

lemma grows_trans:
  assumes "grows w w1" and "grows w1 w2"
  shows "grows w w2"
proof -
  from assms(1) obtain e1 where
    e1: "offlineQueue w1 = offlineQueue w @ e1" "\<forall>b\<in>set e1. nextAddr w \<le> b \<and> b < nextAddr w1"
    by (auto simp: grows_def)
  from assms(2) obtain e2 where
    e2: "offlineQueue w2 = offlineQueue w1 @ e2" "\<forall>b\<in>set e2. nextAddr w1 \<le> b \<and> b < nextAddr w2"
    by (auto simp: grows_def)
  have le: "nextAddr w \<le> nextAddr w1" "nextAddr w1 \<le> nextAddr w2"
    "sequenceCounter w \<le> sequenceCounter w1" "sequenceCounter w1 \<le> sequenceCounter w2"
    using assms by (auto simp: grows_def)
  have h1: "\<forall>b<nextAddr w. heap w1 b = heap w b" and h2: "\<forall>b<nextAddr w1. heap w2 b = heap w1 b"
    using assms by (auto simp: grows_def)
  have s1: "\<forall>b. nextAddr w \<le> b \<and> b < nextAddr w1 \<longrightarrow>
           sequenceCounter w < sequenceNumber (heap w1 b) \<and>
           sequenceNumber (heap w1 b) \<le> sequenceCounter w1"
   and s2: "\<forall>b. nextAddr w1 \<le> b \<and> b < nextAddr w2 \<longrightarrow>
           sequenceCounter w1 < sequenceNumber (heap w2 b) \<and>
           sequenceNumber (heap w2 b) \<le> sequenceCounter w2"
    using assms by (auto simp: grows_def)
  have q: "offlineQueue w2 = offlineQueue w @ (e1 @ e2)"
    using e1 e2 by simp
  have b: "\<forall>b\<in>set (e1 @ e2). nextAddr w \<le> b \<and> b < nextAddr w2"
    using e1 e2 le by fastforce
  have s: "\<forall>b. nextAddr w \<le> b \<and> b < nextAddr w2 \<longrightarrow>
           sequenceCounter w < sequenceNumber (heap w2 b) \<and>
           sequenceNumber (heap w2 b) \<le> sequenceCounter w2"
  proof (intro allI impI)
    fix b assume b: "nextAddr w \<le> b \<and> b < nextAddr w2"
    show "sequenceCounter w < sequenceNumber (heap w2 b) \<and>
           sequenceNumber (heap w2 b) \<le> sequenceCounter w2"
    proof (cases "b < nextAddr w1")
      case True
      then have "heap w2 b = heap w1 b" using h2 by simp
      moreover have "sequenceCounter w < sequenceNumber (heap w1 b) \<and>
           sequenceNumber (heap w1 b) \<le> sequenceCounter w1"
        using s1 b True by simp
      ultimately show ?thesis using le by simp
    next
      case False
      then have "sequenceCounter w1 < sequenceNumber (heap w2 b) \<and>
           sequenceNumber (heap w2 b) \<le> sequenceCounter w2"
        using s2 b by simp
      then show ?thesis using le by simp
    qed
  qed
  have h: "\<forall>b<nextAddr w. heap w2 b = heap w b"
    using h1 h2 le by fastforce
  show ?thesis
    unfolding grows_def using le h s q b by (intro conjI exI [of _ "e1 @ e2"]) auto
qed

lemma grows_transitionTo: "grows w (transitionTo E s w)"
  by (simp add: grows_def prim_defs Let_def)

lemma grows_executeOffline: "grows w (fst (executeOffline E w c x))"
  by (simp add: grows_def executeOffline_def prim_defs Let_def split_def)

lemma grows_failed_attempt: "grows w (failed_attempt E w c x)"
  by (simp add: grows_def failed_attempt_def execute_catch_def prim_defs Let_def split_def)

lemma grows_execute_try:
  "grows w (fst (execute_try E t (transitionTo E VALIDATING (snd (dateNow E w))) c x))"
  by (simp add: grows_def execute_try_def stage_defs prim_defs Let_def split_def)

lemma grows_slept: "grows w (w\<lparr>trace := trace w @ [Slept d]\<rparr>)"
  by (simp add: grows_def)

lemma grows_execute: "grows w (fst (execute n E w c x))"
proof (induction n arbitrary: w)
  case 0
  show ?case by (simp add: grows_refl)
next
  case (Suc n)
  show ?case
  proof (cases "online x")
    case False
    then show ?thesis by (simp add: execute_offline_route grows_executeOffline)
  next
    case on: True
    show ?thesis
    proof (cases "valid (validate c)")
      case True
      with on show ?thesis
        using grows_execute_try [of w E "now E (clockReads w)" c x]
        by (simp add: execute_valid split_def)
    next
      case False
      let ?w4 = "failed_attempt E w c x"
      have "grows w (?w4\<lparr>trace := trace ?w4 @ [Slept (backoffDelay (config ?w4))]\<rparr>)"
        using grows_failed_attempt grows_slept grows_trans by blast
      with on False Suc show ?thesis
        by (auto simp: execute_invalid grows_failed_attempt intro: grows_trans)
    qed
  qed
qed

lemma execute_hangs: "hangs c x \<Longrightarrow> snd (execute n E w c x) = None"
proof (induction n arbitrary: w)
  case 0
  show ?case by simp
next
  case (Suc n)
  then show ?case by (simp add: hangs_def execute_invalid)
qed


lemma execute_rejects_without_key:
  assumes "online x" and "\<not> truthy (idempotencyKey c)"
  shows "\<exists>w' es. execute (Suc n) E w c x = (w', Some (Inl (ResourceRegistryValidationError es)))
           \<and> map err_field es = missing_fields c"
  using assms by (simp add: execute_invalid valid_iff validate_fields)

subsection \<open>Back-off delays\<close>

lemma slept_append: "slept (xs @ ys) = slept xs @ slept ys"
  by (induction xs rule: slept.induct) simp_all

lemma slept_notify: "slept (map (\<lambda>g. StateListenerCalled g s) ls) = []"
  by (induction ls) simp_all

lemma backoffDelay_initial: "backoffDelay cfg = initialBackoffMs (networkConfig cfg)"
  by (simp add: backoffDelay_def)

lemma slept_executeOffline: "slept (trace (fst (executeOffline E w c x))) = slept (trace w)"
  by (simp add: executeOffline_def prim_defs Let_def split_def slept_append slept_notify)

lemma slept_failed_attempt:
  "slept (trace (failed_attempt E w c x)) = slept (trace w) \<and>
   config (failed_attempt E w c x) = config w"
  by (simp add: failed_attempt_def execute_catch_def prim_defs Let_def split_def
      slept_append slept_notify)

lemma slept_execute_try:
  "slept (trace (fst (execute_try E t (transitionTo E VALIDATING (snd (dateNow E w))) c x)))
     = slept (trace w)"
  by (simp add: execute_try_def stage_defs prim_defs Let_def split_def slept_append slept_notify)

lemma slept_execute:
  "slept (trace (fst (execute n E w c x))) =
     slept (trace w) @
     replicate (if hangs c x then n else 0) (initialBackoffMs (networkConfig (config w)))"
proof (induction n arbitrary: w)
  case 0
  show ?case by simp
next
  case (Suc n)
  show ?case
  proof (cases "online x")
    case False
    then show ?thesis
      by (simp add: execute_offline_route slept_executeOffline hangs_def)
  next
    case on: True
    show ?thesis
    proof (cases "valid (validate c)")
      case True
      with on show ?thesis
        using slept_execute_try [of E "now E (clockReads w)" w c x]
        by (simp add: execute_valid split_def hangs_def)
    next
      case False
      with on Suc show ?thesis
        by (simp add: execute_invalid hangs_def slept_failed_attempt slept_append
            backoffDelay_initial replicate_append_same)
    qed
  qed
qed

subsection \<open>Invariants of \<^verbatim>\<open>sync\<close> and of sequences of calls\<close>

lemma sync_loop_rel:
  assumes refl: "\<And>w. R w w"
    and trans: "\<And>w w1 w2. R w w1 \<Longrightarrow> R w1 w2 \<Longrightarrow> R w w2"
    and ex: "\<And>w c x. R w (fst (execute n E w c x))"
    and qu: "\<And>w P. R w (w\<lparr>offlineQueue := filter P (offlineQueue w)\<rparr>)"
    and hp: "\<And>w a. R w (w\<lparr>heap := (heap w)(a := (heap w a)\<lparr>retryCount := retryCount (heap w a) + 1\<rparr>)\<rparr>)"
  shows "R w (fst (sync_loop n E as w ns nf))"
proof (induction as arbitrary: w ns nf)
  case Nil
  show ?case by (simp add: refl)
next
  case (Cons a as)
  let ?c = "entry_command (heap w a)"
  let ?x = "(entry_context (heap w a))\<lparr>isOffline := False\<rparr>"
  obtain w1 r where e: "execute n E w ?c ?x = (w1, r)"
    by fastforce
  have r1: "R w w1"
    using ex [of w ?c ?x] e by simp
  show ?case
  proof (cases r)
    case None
    with e r1 show ?thesis by simp
  next
    case (Some v)
    show ?thesis
    proof (cases v)
      case (Inl err)
      let ?w2 = "w1\<lparr>heap := (heap w1)(a := (heap w1 a)\<lparr>retryCount := retryCount (heap w1 a) + 1\<rparr>)\<rparr>"
      have "R w ?w2" using r1 hp [of w1 a] by (rule trans)
      then have "R w (fst (sync_loop n E as ?w2 ns (nf + 1)))"
        using Cons.IH [of ?w2 ns "nf + 1"] by (rule trans)
      with e Some Inl show ?thesis by simp
    next
      case (Inr res)
      let ?w2 = "w1\<lparr>offlineQueue :=
                     filter (\<lambda>e. entry_id (heap w1 e) \<noteq> entry_id (heap w1 a)) (offlineQueue w1)\<rparr>"
      have "R w ?w2"
        using r1 qu [of w1 "\<lambda>e. entry_id (heap w1 e) \<noteq> entry_id (heap w1 a)"] by (rule trans)
      then have "R w (fst (sync_loop n E as ?w2 (ns + 1) nf))"
        using Cons.IH [of ?w2 "ns + 1" nf] by (rule trans)
      with e Some Inr show ?thesis by simp
    qed
  qed
qed

lemma sync_rel:
  assumes refl: "\<And>w. R w w"
    and trans: "\<And>w w1 w2. R w w1 \<Longrightarrow> R w1 w2 \<Longrightarrow> R w w2"
    and ex: "\<And>w c x. R w (fst (execute n E w c x))"
    and qu: "\<And>w P. R w (w\<lparr>offlineQueue := filter P (offlineQueue w)\<rparr>)"
    and hp: "\<And>w a. R w (w\<lparr>heap := (heap w)(a := (heap w a)\<lparr>retryCount := retryCount (heap w a) + 1\<rparr>)\<rparr>)"
    and tr: "\<And>w s. R w (transitionTo E s w)"
    and ck: "\<And>w. R w (snd (dateNow E w))"
    and ps: "\<And>w. R w (persistOfflineQueue w)"
  shows "R w (fst (sync n E w))"
proof -
  let ?w2 = "snd (dateNow E (transitionTo E SYNCING w))"
  have r2: "R w ?w2"
    using tr [of w SYNCING] ck by (rule trans)
  obtain w3 r where l: "sync_loop n E (sorted_queue ?w2) ?w2 0 0 = (w3, r)"
    by fastforce
  have "R ?w2 w3"
    using sync_loop_rel [of R n E ?w2 "sorted_queue ?w2" 0 0, OF refl trans ex qu hp] l by simp
  with r2 have r3: "R w w3" by (rule trans)
  show ?thesis
  proof (cases r)
    case None
    with l r3 show ?thesis by (simp add: sync_def Let_def split_def)
  next
    case (Some p)
    have "R w3 (snd (dateNow E (transitionTo E IDLE (persistOfflineQueue w3))))"
      using ps [of w3] tr [of "persistOfflineQueue w3" IDLE] ck trans by blast
    with r3 have "R w (snd (dateNow E (transitionTo E IDLE (persistOfflineQueue w3))))"
      by (rule trans)
    with l Some show ?thesis by (simp add: sync_def Let_def split_def)
  qed
qed

lemma keeps_sync: "keeps h w (fst (sync n E w))"
proof (rule sync_rel [of "keeps h"])
  show "\<And>w w1 w2. keeps h w w1 \<Longrightarrow> keeps h w1 w2 \<Longrightarrow> keeps h w w2"
    by (rule keeps_trans)
qed (simp_all add: keeps_refl keeps_execute keeps_transitionTo, simp_all add: keeps_simps prim_defs)

lemma seq_inv_grows: "grows w w' \<Longrightarrow> seq_inv w \<Longrightarrow> seq_inv w'"
  unfolding grows_def seq_inv_def
  by (metis le_trans not_le_imp_less)

lemma seq_inv_sync: "seq_inv w \<Longrightarrow> seq_inv (fst (sync n E w))"
proof -
  have "seq_inv w \<longrightarrow> seq_inv (fst (sync n E w))"
  proof (rule sync_rel [of "\<lambda>w w'. seq_inv w \<longrightarrow> seq_inv w'"])
    show "\<And>w c x. seq_inv w \<longrightarrow> seq_inv (fst (execute n E w c x))"
      using seq_inv_grows grows_execute by blast
  qed (simp_all add: seq_inv_def prim_defs Let_def)
  then show "seq_inv w \<Longrightarrow> seq_inv (fst (sync n E w))" by simp
qed

lemma seq_inv_perform: "seq_inv w \<Longrightarrow> seq_inv (fst (perform n E c w))"
proof (cases c)
  case (Execute c x)
  assume "seq_inv w"
  then show ?thesis
    using Execute seq_inv_grows [OF grows_execute [of w n E c x]] by (simp add: split_def)
next
  case (ExecuteOffline c x)
  assume "seq_inv w"
  then show ?thesis
    using ExecuteOffline seq_inv_grows [OF grows_executeOffline [of w E c x]] by (simp add: split_def)
next
  case Sync
  assume "seq_inv w"
  then show ?thesis using Sync seq_inv_sync [of w n E] by (simp add: split_def)
qed (simp_all add: seq_inv_def onStateChange_def unsubscribeState_def onError_def
       unsubscribeError_def dispose_def prim_defs Let_def)

lemma seq_inv_run: "seq_inv w \<Longrightarrow> seq_inv (run n E cs w)"
proof (induction cs arbitrary: w)
  case Nil
  then show ?case by simp
next
  case (Cons c cs)
  from Cons.prems have "seq_inv (fst (perform n E c w))" by (rule seq_inv_perform)
  with Cons.IH show ?case by (simp add: split_def)
qed

lemma seq_inv_new: "seq_inv (new_ResourceRegistry p)"
  by (simp add: seq_inv_def new_ResourceRegistry_def)

lemma perform_quiet:
  assumes "h \<notin> set (stateListeners w)" and "c \<noteq> OnStateChange h"
  shows "h \<notin> set (stateListeners (fst (perform n E c w))) \<and>
         listener_calls h (trace (fst (perform n E c w))) = listener_calls h (trace w)"
proof (cases c)
  case (Execute c x)
  then show ?thesis
    using assms keeps_execute [of h w n E c x] by (simp add: split_def keeps_def)
next
  case (ExecuteOffline c x)
  then show ?thesis
    using assms keeps_executeOffline [of h w E c x] by (simp add: split_def keeps_def)
next
  case Sync
  then show ?thesis
    using assms keeps_sync [of h w n E] by (simp add: split_def keeps_def)
next
  case (OnStateChange g)
  then show ?thesis using assms by (simp add: onStateChange_def)
next
  case (UnsubscribeState g)
  then show ?thesis using assms by (simp add: unsubscribeState_def)
next
  case (OnError g)
  then show ?thesis using assms by (simp add: onError_def)
next
  case (UnsubscribeError g)
  then show ?thesis using assms by (simp add: unsubscribeError_def)
next
  case Dispose
  then show ?thesis
    by (simp add: dispose_def prim_defs Let_def listener_calls_def)
qed

lemma run_quiet:
  assumes "h \<notin> set (stateListeners w)" and "OnStateChange h \<notin> set cs"
  shows "listener_calls h (trace (run n E cs w)) = listener_calls h (trace w)"
  using assms
proof (induction cs arbitrary: w)
  case Nil
  show ?case by simp
next
  case (Cons c cs)
  from Cons.prems have c: "c \<noteq> OnStateChange h" and cs: "OnStateChange h \<notin> set cs"
    by auto
  note q = perform_quiet [OF Cons.prems(1) c, of n E]
  show ?case
  proof (cases "snd (perform n E c w)")
    case True
    then show ?thesis
      using Cons.IH [of "fst (perform n E c w)"] q cs by (simp add: split_def)
  next
    case False
    then show ?thesis using q by (simp add: split_def)
  qed
qed

subsection \<open>The loop of \<^verbatim>\<open>sync\<close>\<close>

lemma replay_retry [simp]:
  "replay_fails (e\<lparr>retryCount := k\<rparr>) = replay_fails e"
  "replay_hangs (e\<lparr>retryCount := k\<rparr>) = replay_hangs e"
  by (simp_all add: replay_fails_def replay_hangs_def replay_context_def)



lemma queued_1_facts:
  "offlineQueue queued_1 = [0]" "nextAddr queued_1 = 1" "sequenceCounter queued_1 = 1"
  "sequenceNumber (heap queued_1 0) = 1" "entered queued_1 = [''OFFLINE'']"
  by (simp_all add: queued_1_def execute.simps context_of_def executeOffline_def prim_defs
      Let_def split_def fresh_def new_ResourceRegistry_def entered_def)










subsection \<open>The audit trail of \<^verbatim>\<open>sync\<close>\<close>








subsection \<open>Reachable states\<close>















lemma ages_refl: "ages w w"
  by (simp add: ages_def)




subsection \<open>What \<^verbatim>\<open>sync\<close> replays\<close>















subsection \<open>Two queues on which \<^verbatim>\<open>sync\<close> goes wrong\<close>








section \<open>Specified properties\<close>

text \<open>
  C1. A command that lacks id, type or idempotencyKey, executed in a context that is not
  offline, should make \<^verbatim>\<open>execute\<close> fail with a validation error that lists exactly the
  missing fields. With the idempotency key missing it does (\<open>execute_rejects_without_key\<close>).
  With the key present and the id missing it does not: the validation error is thrown
  inside the \<^verbatim>\<open>try\<close> block, the \<^verbatim>\<open>catch\<close> block retries because \<^verbatim>\<open>canRetry\<close> is
  always true, and the retry fails in the same way. For the command
  \<^verbatim>\<open>{type: "noop", idempotencyKey: "k1"}\<close>, and for the same with \<^verbatim>\<open>id: ""\<close>,
  whatever the bound on nested calls, the clock and the state of the instance, the call
  has not ended.
\<close>

theorem execute_hangs_on_missing_id:
  "missing_fields cmd_no_id = [''id''] \<and> missing_fields cmd_empty_id = [''id''] \<and>
   online (context_of False ''medium'') \<and>
   snd (execute n E w cmd_no_id (context_of False ''medium'')) = None \<and>
   snd (execute n E w cmd_empty_id (context_of False ''medium'')) = None"
proof -
  have "hangs cmd_no_id (context_of False ''medium'')"
    and "hangs cmd_empty_id (context_of False ''medium'')"
    by (simp_all add: hangs_def online_def valid_iff cmd_no_id_def cmd_empty_id_def
        command_of_def context_of_def)
  then show ?thesis
    by (simp add: execute_hangs)
       (simp add: missing_fields_def online_def cmd_no_id_def cmd_empty_id_def command_of_def
          context_of_def)
qed

text \<open>
  C2. A command with id, type and idempotencyKey present, executed in a context with
  \<^verbatim>\<open>isOffline\<close> false and a network quality other than \<^verbatim>\<open>offline\<close>, returns (at the
  first attempt, whatever the bound) a result with status \<^verbatim>\<open>success\<close> and the id of the
  command, and leaves the instance in state \<^verbatim>\<open>IDLE\<close>.
\<close>

theorem execute_success:
  assumes "truthy (cmd_id c)" and "truthy (cmd_type c)" and "truthy (idempotencyKey c)"
    and "\<not> isOffline x" and "networkQuality x \<noteq> ''offline''"
  shows "\<exists>w' r. execute (Suc n) E w c x = (w', Some (Inr r)) \<and>
           status r = Success \<and> commandId r = cmd_id c \<and> getState w' = IDLE"
proof -
  have on: "online x" and v: "valid (validate c)"
    using assms by (simp_all add: online_def valid_iff)
  let ?w2 = "transitionTo E VALIDATING (snd (dateNow E w))"
  obtain i where i: "cmd_id c = Some i"
    using assms(1) by (cases "cmd_id c") simp_all
  have "\<exists>w' r. execute_try E (now E (clockReads w)) ?w2 c x = (w', Inr r) \<and>
           status r = Success \<and> commandId r = cmd_id c \<and> state w' = IDLE"
    using v i by (simp add: execute_try_def stage_defs prim_defs Let_def split_def)
  then show ?thesis
    using execute_valid [OF on v, of n E w] by (auto simp: getState_def)
qed

theorem execute_success_witness:
  "truthy (cmd_id cmd_1) \<and> truthy (cmd_type cmd_1) \<and> truthy (idempotencyKey cmd_1) \<and>
   \<not> isOffline (context_of False ''medium'') \<and>
   networkQuality (context_of False ''medium'') \<noteq> ''offline'' \<and>
   (\<exists>w' r. execute (Suc 0) env0 fresh cmd_1 (context_of False ''medium'') = (w', Some (Inr r)) \<and>
          status r = Success \<and> commandId r = Some ''cmd-1'' \<and> getState w' = IDLE)"
  using execute_success [of cmd_1 "context_of False ''medium''" 0 env0 fresh]
  by (simp add: cmd_1_def command_of_def context_of_def)

text \<open>
  C3. In a context with \<^verbatim>\<open>isOffline\<close> true or network quality \<^verbatim>\<open>offline\<close>,
  \<^verbatim>\<open>execute\<close> returns a result with status \<^verbatim>\<open>partial\<close>; the only state it enters is
  \<^verbatim>\<open>OFFLINE\<close> (so neither \<^verbatim>\<open>VALIDATING\<close> nor \<^verbatim>\<open>PROCESSING\<close>); it appends exactly one
  entry, a new object, to the queue; the sequence number of that entry is the counter plus
  one, which is above the sequence number of every entry enqueued before, still queued or
  not. \<open>seq_inv\<close> holds in every state that calls can reach (\<open>seq_inv_new\<close>,
  \<open>seq_inv_run\<close>).
\<close>

theorem execute_offline:
  assumes "isOffline x \<or> networkQuality x = ''offline''" and "seq_inv w"
  shows "\<exists>w' r. execute (Suc n) E w c x = (w', Some (Inr r)) \<and> status r = Partial \<and>
           entered w' = entered w @ [''OFFLINE''] \<and>
           offlineQueue w' = offlineQueue w @ [nextAddr w] \<and>
           nextAddr w' = nextAddr w + 1 \<and>
           (\<forall>b<nextAddr w. heap w' b = heap w b) \<and>
           sequenceNumber (heap w' (nextAddr w)) = sequenceCounter w + 1 \<and>
           sequenceCounter w' = sequenceCounter w + 1 \<and>
           (\<forall>b<nextAddr w. sequenceNumber (heap w b) < sequenceNumber (heap w' (nextAddr w)))"
proof -
  have off: "\<not> online x" using assms(1) by (auto simp: online_def)
  have "\<exists>w' r. executeOffline E w c x = (w', Some (Inr r)) \<and> status r = Partial \<and>
           entered w' = entered w @ [''OFFLINE''] \<and>
           offlineQueue w' = offlineQueue w @ [nextAddr w] \<and>
           nextAddr w' = nextAddr w + 1 \<and>
           (\<forall>b<nextAddr w. heap w' b = heap w b) \<and>
           sequenceNumber (heap w' (nextAddr w)) = sequenceCounter w + 1 \<and>
           sequenceCounter w' = sequenceCounter w + 1"
    by (simp add: executeOffline_def prim_defs Let_def split_def entered_def)
  then show ?thesis
    using assms(2) by (auto simp: execute_offline_route [OF off] seq_inv_def less_Suc_eq_le)
qed

theorem execute_offline_witness:
  "(isOffline (context_of True ''medium'') \<or> networkQuality (context_of True ''medium'') = ''offline'') \<and>
   seq_inv queued_1 \<and>
   (\<exists>w' r. execute (Suc 0) env0 queued_1 cmd_1 (context_of True ''medium'') = (w', Some (Inr r)) \<and>
      status r = Partial \<and> entered w' = [''OFFLINE'', ''OFFLINE''] \<and>
      offlineQueue w' = [0, 1] \<and> sequenceNumber (heap w' 1) = 2 \<and>
      sequenceNumber (heap w' 0) < sequenceNumber (heap w' 1))"
proof -
  have off: "isOffline (context_of True ''medium'') \<or>
             networkQuality (context_of True ''medium'') = ''offline''"
    by (simp add: context_of_def)
  have inv: "seq_inv queued_1"
    by (simp add: seq_inv_def queued_1_facts)
  show ?thesis
    using off inv execute_offline [OF off inv, of 0 env0 cmd_1]
    by (auto simp: queued_1_facts)
qed






text \<open>
  C6. Every entry of the offline queue should wrap a command with an idempotency key.
  \<^verbatim>\<open>validate\<close> asks for the key (\<^verbatim>\<open>Required for offline support\<close>), but the offline
  path does not validate: \<^verbatim>\<open>execute\<close> of a command without a key, or with the empty
  string for a key, in an offline context puts it in the queue.
\<close>

theorem execute_enqueues_without_key:
  "offlineQueue (fst (execute (Suc 0) env0 fresh cmd_no_key (context_of True ''offline''))) = [0] \<and>
   idempotencyKey (entry_command
     (heap (fst (execute (Suc 0) env0 fresh cmd_no_key (context_of True ''offline''))) 0)) = None \<and>
   offlineQueue (fst (execute (Suc 0) env0 fresh cmd_empty_key (context_of True ''offline''))) = [0] \<and>
   \<not> truthy (idempotencyKey (entry_command
     (heap (fst (execute (Suc 0) env0 fresh cmd_empty_key (context_of True ''offline''))) 0)))"
  by (simp add: execute.simps context_of_def cmd_no_key_def cmd_empty_key_def command_of_def
      executeOffline_def prim_defs Let_def split_def fresh_def new_ResourceRegistry_def)

text \<open>
  C7. \<^verbatim>\<open>canRetry\<close> is true of every command. When the \<^verbatim>\<open>try\<close> block of \<^verbatim>\<open>execute\<close>
  throws, whatever the error, for a command with an idempotency key, \<^verbatim>\<open>execute\<close> calls
  \<^verbatim>\<open>retryWithBackoff\<close>, which calls \<^verbatim>\<open>execute\<close> with the same command and context.
  Nothing bounds the retries: whatever the configuration (\<^verbatim>\<open>maxRetries\<close> included) and
  whatever \<open>n\<close>, after \<open>n\<close> nested calls the call has not ended and has waited \<open>n\<close>
  times.
\<close>

theorem retry_unbounded:
  assumes "online x" and "truthy (idempotencyKey c)"
    and "execute_try E (now E (clockReads w)) (transitionTo E VALIDATING (snd (dateNow E w))) c x
           = (w3, Inl err)"
  shows "canRetry c \<and>
         execute (Suc n) E w c x = retryWithBackoff n E (execute_catch E w3 c x err) c x \<and>
         retryWithBackoff n E w c x =
           execute n E (w\<lparr>trace := trace w @ [Slept (backoffDelay (config w))]\<rparr>) c x \<and>
         snd (execute n E w c x) = None \<and>
         length (slept (trace (fst (execute n E w c x)))) = length (slept (trace w)) + n"
proof -
  have nv: "\<not> valid (validate c)"
  proof
    assume "valid (validate c)"
    from execute_valid [OF assms(1) this, of n E w] assms(3) show False by simp
  qed
  with assms(1,2) have h: "hangs c x" by (simp add: hangs_def)
  have "execute_catch E w3 c x err = failed_attempt E w c x"
    using assms(3) nv by (simp add: execute_try_invalid failed_attempt_def)
  then show ?thesis
    using assms(1,2) nv
    by (simp add: canRetry_def execute_invalid retryWithBackoff.simps Let_def
        execute_hangs [OF h] slept_execute h)
qed

theorem retry_unbounded_witness:
  "online (context_of False ''medium'') \<and> truthy (idempotencyKey cmd_no_id) \<and>
   execute_try env0 (now env0 (clockReads fresh))
       (transitionTo env0 VALIDATING (snd (dateNow env0 fresh))) cmd_no_id
       (context_of False ''medium'')
     = (transitionTo env0 VALIDATING (snd (dateNow env0 fresh)),
        Inl (ResourceRegistryValidationError
               [\<lparr> err_field = ''id'', err_message = ''Required'', err_code = ''REQUIRED'' \<rparr>])) \<and>
   maxRetries (config fresh) = 3 \<and>
   snd (execute 10 env0 fresh cmd_no_id (context_of False ''medium'')) = None \<and>
   length (slept (trace (fst (execute 10 env0 fresh cmd_no_id (context_of False ''medium''))))) = 10"
proof -
  have a1: "online (context_of False ''medium'')"
    by (simp add: online_def context_of_def)
  have a2: "truthy (idempotencyKey cmd_no_id)"
    by (simp add: cmd_no_id_def command_of_def)
  have a3: "execute_try env0 (now env0 (clockReads fresh))
       (transitionTo env0 VALIDATING (snd (dateNow env0 fresh))) cmd_no_id
       (context_of False ''medium'')
     = (transitionTo env0 VALIDATING (snd (dateNow env0 fresh)),
        Inl (ResourceRegistryValidationError
               [\<lparr> err_field = ''id'', err_message = ''Required'', err_code = ''REQUIRED'' \<rparr>]))"
    by (simp add: execute_try_def withTimeout_def validate_def cmd_no_id_def command_of_def)
  have a4: "slept (trace fresh) = []"
    by (simp add: fresh_def new_ResourceRegistry_def)
  from retry_unbounded [OF a1 a2 a3, of 10] a1 a2 a3 a4 show ?thesis
    by (simp add: fresh_def new_ResourceRegistry_def merge_config_def no_config_def
        DEFAULT_CONFIG_def)
qed

text \<open>
  C8. The delay that \<^verbatim>\<open>retryWithBackoff\<close> waits is
  \<^verbatim>\<open>initialBackoffMs * Math.pow(backoffMultiplier, 0)\<close>, which is \<^verbatim>\<open>initialBackoffMs\<close>;
  every delay that a call of \<^verbatim>\<open>execute\<close> waits, at whatever attempt, is that number.
\<close>

theorem backoff_constant:
  "backoffDelay cfg =
     initialBackoffMs (networkConfig cfg) * backoffMultiplier (networkConfig cfg) ^ (0::nat) \<and>
   backoffDelay cfg = initialBackoffMs (networkConfig cfg) \<and>
   slept (trace (fst (execute n E w c x))) =
     slept (trace w) @
     replicate (if hangs c x then n else 0) (initialBackoffMs (networkConfig (config w)))"
  using slept_execute [of n E w c x] by (simp add: backoffDelay_def)

text \<open>
  C9. After \<^verbatim>\<open>dispose\<close> the state is \<^verbatim>\<open>IDLE\<close>, and a listener \<open>h\<close> is not called
  again: not by the transition inside \<^verbatim>\<open>dispose\<close> (the lists are emptied before it) and
  not by any later sequence of calls, as long as \<open>h\<close> is not registered anew with
  \<^verbatim>\<open>onStateChange\<close>. The calls of \<open>h\<close> in the trace after the sequence, also when its last
  call has not ended, are those from before \<^verbatim>\<open>dispose\<close>. (Error listeners are called
  nowhere in the class.)
\<close>

theorem dispose_silences_listeners:
  assumes "OnStateChange h \<notin> set cs"
  shows "getState (dispose E w) = IDLE \<and>
         stateListeners (dispose E w) = [] \<and> errorListeners (dispose E w) = [] \<and>
         listener_calls h (trace (dispose E w)) = listener_calls h (trace w) \<and>
         listener_calls h (trace (run n E cs (dispose E w))) = listener_calls h (trace w)"
proof -
  have d: "getState (dispose E w) = IDLE \<and>
         stateListeners (dispose E w) = [] \<and> errorListeners (dispose E w) = [] \<and>
         listener_calls h (trace (dispose E w)) = listener_calls h (trace w)"
    by (simp add: dispose_def prim_defs Let_def listener_calls_def getState_def)
  then have "h \<notin> set (stateListeners (dispose E w))" by simp
  from run_quiet [OF this assms, of n E] d show ?thesis by simp
qed

theorem dispose_silences_listeners_witness:
  "OnStateChange 7 \<notin> set [OnStateChange 8, Execute cmd_1 (context_of True ''medium''),
                           Execute cmd_no_id (context_of False ''medium''), Sync] \<and>
   getState (dispose env0 (onError 7 (onStateChange 7 queued_1))) = IDLE \<and>
   listener_calls 7 (trace (run 5 env0
       [OnStateChange 8, Execute cmd_1 (context_of True ''medium''),
        Execute cmd_no_id (context_of False ''medium''), Sync]
       (dispose env0 (onError 7 (onStateChange 7 queued_1)))))
     = listener_calls 7 (trace (onError 7 (onStateChange 7 queued_1)))"
  using dispose_silences_listeners
    [of 7 "[OnStateChange 8, Execute cmd_1 (context_of True ''medium''),
            Execute cmd_no_id (context_of False ''medium''), Sync]"
        env0 "onError 7 (onStateChange 7 queued_1)" 5]
  by simp

text \<open>
  C10. \<^verbatim>\<open>dispose\<close> leaves the queue, the entries and the sequence counter as they are.
  All it does: it calls \<^verbatim>\<open>persistOfflineQueue\<close>, empties both listener lists and makes
  the transition to \<^verbatim>\<open>IDLE\<close>, which as every transition records one
  \<^verbatim>\<open>state_transition\<close> metric (and reads the clock for it).
\<close>

theorem dispose_frame:
  "offlineQueue (dispose E w) = offlineQueue w \<and>
   sequenceCounter (dispose E w) = sequenceCounter w \<and>
   heap (dispose E w) = heap w \<and>
   nextAddr (dispose E w) = nextAddr w \<and>
   config (dispose E w) = config w \<and>
   randomReads (dispose E w) = randomReads w \<and>
   trace (dispose E w) = trace w @ [QueuePersisted] \<and>
   stateListeners (dispose E w) = [] \<and>
   errorListeners (dispose E w) = [] \<and>
   state (dispose E w) = IDLE \<and>
   metrics (dispose E w) = metrics w @
     [\<lparr> metric_name = ''state_transition'', metric_value = 1, metric_unit = ''count'',
        metric_timestamp = now E (clockReads w),
        metric_tags = [(''from'', state_name (state w)), (''to'', ''IDLE'')] \<rparr>] \<and>
   clockReads (dispose E w) = clockReads w + 1"
  by (simp add: dispose_def prim_defs Let_def)

end
